theory Spec2Isabelle
  imports Complex_Main
begin

section \<open>Numbers and vectors\<close>

text \<open>
  The program computes with JavaScript numbers and GLSL floats. They are modelled as
  the reals: arithmetic is exact, rounding is not part of the model. Every concrete
  input used below is chosen so that the branch taken does not depend on rounding.
\<close>

datatype vec2 = Vec2 (vec2_x: real) (vec2_y: real)

datatype vec3 = Vec3 (vec3_x: real) (vec3_y: real) (vec3_z: real)

datatype vec4 = Vec4 (vec4_r: real) (vec4_g: real) (vec4_b: real) (vec4_a: real)

text \<open>\<^verbatim>\<open>position.setY(newY)\<close> of a THREE.Vector3.\<close>

definition setY :: "real \<Rightarrow> vec3 \<Rightarrow> vec3" where
  "setY newY p = Vec3 (vec3_x p) newY (vec3_z p)"

section \<open>The per-frame update of a panel (Canvas.tsx, lines 67-90)\<close>

text \<open>
  The mutable cells the frame callback of \<^verbatim>\<open>Prophecy\<close> touches:
  \<^verbatim>\<open>timeRef.current\<close>, \<^verbatim>\<open>accumRef.current\<close>,
  \<^verbatim>\<open>shaderMaterial.uniforms.uOffset.value\<close> and the position of the mesh
  behind \<^verbatim>\<open>meshRef.current\<close> (\<open>None\<close> when the ref is null).
\<close>

record panel =
  timeRef :: real
  accumRef :: real
  uOffset :: vec2
  meshRef :: "vec3 option"

definition targetDelta :: real where
  "targetDelta = 1 / 30"

text \<open>Line 73: \<^verbatim>\<open>accumRef.current += delta\<close>.\<close>

definition accumulate :: "real \<Rightarrow> panel \<Rightarrow> panel" where
  "accumulate delta s = s\<lparr>accumRef := accumRef s + delta\<rparr>"

text \<open>Line 75: the test \<^verbatim>\<open>accumRef.current >= targetDelta\<close>.\<close>

definition due :: "panel \<Rightarrow> bool" where
  "due s = (accumRef s \<ge> targetDelta)"

text \<open>Lines 76-88: the body of the conditional, one animation tick.\<close>

definition tick :: "real \<Rightarrow> real \<Rightarrow> panel \<Rightarrow> panel" where
  "tick startY floatOffset s =
     (let s1 = s\<lparr>timeRef := timeRef s + targetDelta\<rparr>;
          s2 = s1\<lparr>uOffset := Vec2 (vec2_x (uOffset s1)) (vec2_y (uOffset s1) - targetDelta * 0.1)\<rparr>;
          s3 = s2\<lparr>uOffset := Vec2 (vec2_x (uOffset s2) + targetDelta * 0.1) (vec2_y (uOffset s2))\<rparr>;
          s4 = (case meshRef s3 of
                  None \<Rightarrow> s3
                | Some p \<Rightarrow>
                    (let floatAmount = 0.1;
                         speed = 4.0;
                         newY = startY + sin (timeRef s3 * speed + floatOffset) * floatAmount
                     in s3\<lparr>meshRef := Some (setY newY p)\<rparr>))
      in s4\<lparr>accumRef := 0\<rparr>)"

text \<open>Lines 72-90: the callback given to \<^verbatim>\<open>useFrame\<close>.\<close>

definition useFrame :: "real \<Rightarrow> real \<Rightarrow> real \<Rightarrow> panel \<Rightarrow> panel" where
  "useFrame startY floatOffset delta s =
     (let s1 = accumulate delta s
      in if due s1 then tick startY floatOffset s1 else s1)"

text \<open>
  The state of a panel before its first frame: both refs are \<^verbatim>\<open>useRef(0)\<close>,
  the offset uniform is \<^verbatim>\<open>new THREE.Vector2(0, 0)\<close>, and the mesh, when it is
  mounted, stands at the \<^verbatim>\<open>position\<close> prop.
\<close>

definition initial :: "vec3 option \<Rightarrow> panel" where
  "initial mesh = \<lparr>timeRef = 0, accumRef = 0, uOffset = Vec2 0 0, meshRef = mesh\<rparr>"

text \<open>The host calls the callback once per rendered frame, with the frame's delta.\<close>

fun frames :: "real \<Rightarrow> real \<Rightarrow> real list \<Rightarrow> panel \<Rightarrow> panel" where
  "frames startY floatOffset [] s = s"
| "frames startY floatOffset (delta # ds) s =
     frames startY floatOffset ds (useFrame startY floatOffset delta s)"

text \<open>The number of those calls that entered the conditional of line 75.\<close>

fun ticks :: "real \<Rightarrow> real \<Rightarrow> real list \<Rightarrow> panel \<Rightarrow> nat" where
  "ticks startY floatOffset [] s = 0"
| "ticks startY floatOffset (delta # ds) s =
     (if due (accumulate delta s) then 1 else 0)
       + ticks startY floatOffset ds (useFrame startY floatOffset delta s)"

definition positionY :: "panel \<Rightarrow> real option" where
  "positionY s = map_option vec3_y (meshRef s)"

section \<open>The grid layout (Canvas.tsx, lines 100-167)\<close>

record layer =
  prophecyCount :: nat
  zPos :: real
  grayHintDegre :: real
  itemsPerRow :: nat

definition layers :: "layer list" where
  "layers =
     [\<lparr>prophecyCount = 150, zPos = 6, grayHintDegre = 0, itemsPerRow = 7\<rparr>,
      \<lparr>prophecyCount = 100, zPos = 2, grayHintDegre = -5, itemsPerRow = 8\<rparr>,
      \<lparr>prophecyCount = 100, zPos = -3, grayHintDegre = -8, itemsPerRow = 9\<rparr>,
      \<lparr>prophecyCount = 100, zPos = -8, grayHintDegre = -12, itemsPerRow = 9\<rparr>]"

text \<open>Line 139: \<^verbatim>\<open>Math.ceil(layer.prophecyCount / columns)\<close>.\<close>

definition rows :: "nat \<Rightarrow> nat \<Rightarrow> int" where
  "rows count columns = \<lceil>real count / real columns\<rceil>"

text \<open>Line 146: \<^verbatim>\<open>index % columns\<close>, on an index that is never negative.\<close>

definition col :: "nat \<Rightarrow> nat \<Rightarrow> nat" where
  "col columns index = index mod columns"

text \<open>Line 147: \<^verbatim>\<open>Math.floor(index / columns)\<close>.\<close>

definition row :: "nat \<Rightarrow> nat \<Rightarrow> int" where
  "row columns index = \<lfloor>real index / real columns\<rfloor>"

definition spacingX :: real where
  "spacingX = 2.5"

definition spacingY :: real where
  "spacingY = 2.5"

text \<open>Lines 149-155: the \<^verbatim>\<open>position\<close> prop \<^verbatim>\<open>[x, y, 0]\<close> of the panel at an index.\<close>

definition placement :: "nat \<Rightarrow> nat \<Rightarrow> nat \<Rightarrow> vec3" where
  "placement count columns index =
     (let x = (real (col columns index) - (real columns - 1) / 2) * spacingX;
          y = ((real_of_int (rows count columns) - 1) / 2
                 - real_of_int (row columns index)) * spacingY
      in Vec3 x y 0)"

text \<open>
  Line 145: the placements of a layer, in index order
  (\<^verbatim>\<open>Array.from({ length: layer.prophecyCount }).map((_, index) => ...)\<close>).
\<close>

definition placements :: "nat \<Rightarrow> nat \<Rightarrow> vec3 list" where
  "placements count columns = map (placement count columns) [0 ..< count]"

text \<open>The arithmetic mean of a list of coordinates.\<close>

definition mean :: "real list \<Rightarrow> real" where
  "mean xs = sum_list xs / real (length xs)"

text \<open>
  The props of \<^verbatim>\<open>Prophecy\<close>; \<^verbatim>\<open>size\<close> and \<^verbatim>\<open>grayHint\<close> are optional
  (defaults 1.5 and 1).
\<close>

record prophecyProps =
  imageIndex :: nat
  position :: vec3
  size_opt :: "real option"
  grayHint_opt :: "real option"

text \<open>Lines 145-161: the panels of one layer, one per index.\<close>

definition layerProphecies :: "layer \<Rightarrow> prophecyProps list" where
  "layerProphecies l =
     map (\<lambda>index.
            \<lparr>imageIndex = index mod 20 + 1,
             position = placement (prophecyCount l) (itemsPerRow l) index,
             size_opt = Some 1.2,
             grayHint_opt = Some (grayHintDegre l)\<rparr>)
       [0 ..< prophecyCount l]"

definition Prophecies :: "prophecyProps list list" where
  "Prophecies = map layerProphecies layers"

section \<open>Construction of a panel (Canvas.tsx, lines 13-24 and 92-97)\<close>

text \<open>
  \<^verbatim>\<open>prophecyTexture.image\<close>: absent (\<open>None\<close>) or an image with its pixel
  dimensions.
\<close>

record image =
  width :: nat
  height :: nat

text \<open>Lines 21-24.\<close>

definition aspectRatio :: "image option \<Rightarrow> real" where
  "aspectRatio img =
     (case img of
        None \<Rightarrow> 1
      | Some i \<Rightarrow> real (width i) / real (height i))"

text \<open>
  Lines 92-97: the element the component returns, a mesh at \<^verbatim>\<open>position\<close>
  with a plane geometry of \<^verbatim>\<open>args={[aspectRatio * size, size]}\<close>.
\<close>

record mesh =
  mesh_position :: vec3
  planeGeometry :: "real \<times> real"

text \<open>Line 13: the destructuring default \<^verbatim>\<open>size = 1.5\<close>.\<close>

definition baseSize :: "prophecyProps \<Rightarrow> real" where
  "baseSize props = (case size_opt props of None \<Rightarrow> 1.5 | Some s \<Rightarrow> s)"

definition Prophecy :: "prophecyProps \<Rightarrow> image option \<Rightarrow> mesh" where
  "Prophecy props img =
     (let size = baseSize props
      in \<lparr>mesh_position = position props,
          planeGeometry = (aspectRatio img * size, size)\<rparr>)"

section \<open>The fragment shader (Canvas.tsx, lines 41-62)\<close>

text \<open>The GLSL operations the shader uses, componentwise.\<close>

definition add2 :: "vec2 \<Rightarrow> vec2 \<Rightarrow> vec2" where
  "add2 u v = Vec2 (vec2_x u + vec2_x v) (vec2_y u + vec2_y v)"

definition add3 :: "vec3 \<Rightarrow> vec3 \<Rightarrow> vec3" where
  "add3 u v = Vec3 (vec3_x u + vec3_x v) (vec3_y u + vec3_y v) (vec3_z u + vec3_z v)"

text \<open>\<^verbatim>\<open>c.rgb\<close>, \<^verbatim>\<open>vec3(s)\<close> and \<^verbatim>\<open>vec4(v, w)\<close>.\<close>

definition rgb :: "vec4 \<Rightarrow> vec3" where
  "rgb c = Vec3 (vec4_r c) (vec4_g c) (vec4_b c)"

definition splat3 :: "real \<Rightarrow> vec3" where
  "splat3 s = Vec3 s s s"

definition vec4_of :: "vec3 \<Rightarrow> real \<Rightarrow> vec4" where
  "vec4_of v w = Vec4 (vec3_x v) (vec3_y v) (vec3_z v) w"

text \<open>
  A sampler is the function \<^verbatim>\<open>texture2D\<close> computes on it (the wrapping mode
  is part of the sampler). The result is \<open>None\<close> for \<^verbatim>\<open>discard\<close>, and the
  value written to \<^verbatim>\<open>gl_FragColor\<close> otherwise.
\<close>

type_synonym sampler2D = "vec2 \<Rightarrow> vec4"

definition fragmentShader :: "sampler2D \<Rightarrow> sampler2D \<Rightarrow> vec2 \<Rightarrow> real \<Rightarrow> vec2 \<Rightarrow> vec4 option" where
  "fragmentShader uProphecy uOcean uOffset' uGrayHint vUv =
     (let prophecyColor = uProphecy vUv;
          oceanColor = uOcean (add2 vUv uOffset');
          blueTint = Vec3 0.0 0.1 0.6;
          grayHint = splat3 (0.1 * uGrayHint);
          finalColor = add3 (add3 (rgb oceanColor) blueTint) grayHint
      in if vec4_a prophecyColor < 0.5
         then Some (vec4_of finalColor (vec4_a oceanColor))
         else None)"

section \<open>Facts about one frame\<close>

lemma useFrame_below:
  "accumRef s + delta < targetDelta \<Longrightarrow>
     useFrame startY floatOffset delta s = s\<lparr>accumRef := accumRef s + delta\<rparr>"
  by (simp add: useFrame_def accumulate_def due_def)

lemma useFrame_due_accumRef:
  "due (accumulate delta s) \<Longrightarrow> accumRef (useFrame startY floatOffset delta s) = 0"
  by (simp add: useFrame_def tick_def Let_def split: option.split)

lemma useFrame_due_timeRef:
  "due (accumulate delta s) \<Longrightarrow>
     timeRef (useFrame startY floatOffset delta s) = timeRef s + targetDelta"
  by (simp add: useFrame_def tick_def accumulate_def Let_def split: option.split)

lemma useFrame_due_uOffset:
  "due (accumulate delta s) \<Longrightarrow>
     uOffset (useFrame startY floatOffset delta s) =
       Vec2 (vec2_x (uOffset s) + targetDelta * 0.1) (vec2_y (uOffset s) - targetDelta * 0.1)"
  by (simp add: useFrame_def tick_def accumulate_def Let_def split: option.split)

lemma useFrame_due_meshRef:
  "due (accumulate delta s) \<Longrightarrow>
     meshRef (useFrame startY floatOffset delta s) =
       map_option (setY (startY + sin ((timeRef s + targetDelta) * 4.0 + floatOffset) * 0.1))
         (meshRef s)"
  by (simp add: useFrame_def tick_def accumulate_def Let_def split: option.split)

lemma useFrame_not_due:
  "\<not> due (accumulate delta s) \<Longrightarrow> useFrame startY floatOffset delta s = accumulate delta s"
  by (simp add: useFrame_def)

section \<open>Facts about sequences of frames\<close>

lemma frames_timeRef:
  "timeRef (frames startY floatOffset ds s) =
     timeRef s + real (ticks startY floatOffset ds s) * targetDelta"
proof (induction ds arbitrary: s)
  case Nil
  show ?case by simp
next
  case (Cons delta ds)
  show ?case
  proof (cases "due (accumulate delta s)")
    case True
    then show ?thesis
      using Cons.IH [of "useFrame startY floatOffset delta s"]
      by (simp add: useFrame_due_timeRef algebra_simps)
  next
    case False
    then show ?thesis
      using Cons.IH [of "useFrame startY floatOffset delta s"]
      by (simp add: useFrame_not_due accumulate_def)
  qed
qed

lemma frames_uOffset:
  "uOffset (frames startY floatOffset ds s) =
     Vec2 (vec2_x (uOffset s) + real (ticks startY floatOffset ds s) * (targetDelta * 0.1))
          (vec2_y (uOffset s) - real (ticks startY floatOffset ds s) * (targetDelta * 0.1))"
proof (induction ds arbitrary: s)
  case Nil
  show ?case by simp
next
  case (Cons delta ds)
  show ?case
  proof (cases "due (accumulate delta s)")
    case True
    then show ?thesis
      using Cons.IH [of "useFrame startY floatOffset delta s"]
      by (simp add: useFrame_due_uOffset algebra_simps)
  next
    case False
    then show ?thesis
      using Cons.IH [of "useFrame startY floatOffset delta s"]
      by (simp add: useFrame_not_due accumulate_def)
  qed
qed

lemma frames_budget:
  "real (ticks startY floatOffset ds s) * targetDelta + accumRef (frames startY floatOffset ds s)
     \<le> accumRef s + sum_list ds"
proof (induction ds arbitrary: s)
  case Nil
  show ?case by simp
next
  case (Cons delta ds)
  show ?case
  proof (cases "due (accumulate delta s)")
    case True
    then have "targetDelta \<le> accumRef s + delta"
      by (simp add: due_def accumulate_def)
    then show ?thesis
      using True Cons.IH [of "useFrame startY floatOffset delta s"]
      by (simp add: useFrame_due_accumRef algebra_simps)
  next
    case False
    then show ?thesis
      using Cons.IH [of "useFrame startY floatOffset delta s"]
      by (simp add: useFrame_not_due accumulate_def algebra_simps)
  qed
qed

lemma useFrame_accumRef_nonneg:
  "0 \<le> accumRef s \<Longrightarrow> 0 \<le> delta \<Longrightarrow> 0 \<le> accumRef (useFrame startY floatOffset delta s)"
  by (cases "due (accumulate delta s)")
     (simp_all add: useFrame_due_accumRef useFrame_not_due accumulate_def)

lemma frames_accumRef_nonneg:
  "0 \<le> accumRef s \<Longrightarrow> \<forall>d \<in> set ds. 0 \<le> d \<Longrightarrow>
     0 \<le> accumRef (frames startY floatOffset ds s)"
  by (induction ds arbitrary: s) (simp_all add: useFrame_accumRef_nonneg)

lemma ticks_le_length: "ticks startY floatOffset ds s \<le> length ds"
proof (induction ds arbitrary: s)
  case Nil
  show ?case by simp
next
  case (Cons delta ds)
  show ?case
    using Cons.IH [of "useFrame startY floatOffset delta s"] by simp
qed

lemma ticks_replicate:
  "0 \<le> accumRef s \<Longrightarrow> ticks startY floatOffset (replicate n targetDelta) s = n"
proof (induction n arbitrary: s)
  case 0
  show ?case by simp
next
  case (Suc n)
  have d: "due (accumulate targetDelta s)"
    using Suc.prems by (simp add: due_def accumulate_def)
  have "accumRef (useFrame startY floatOffset targetDelta s) = 0"
    using d by (rule useFrame_due_accumRef)
  then show ?case
    using d Suc.IH [of "useFrame startY floatOffset targetDelta s"] by simp
qed

lemma ticks_le_floor:
  assumes "\<forall>d \<in> set ds. 0 \<le> d"
  shows "int (ticks startY floatOffset ds (initial m)) \<le> \<lfloor>sum_list ds / targetDelta\<rfloor>"
proof -
  let ?n = "ticks startY floatOffset ds (initial m)"
  have "0 \<le> accumRef (frames startY floatOffset ds (initial m))"
    using assms by (intro frames_accumRef_nonneg) (simp_all add: initial_def)
  moreover have "real ?n * targetDelta + accumRef (frames startY floatOffset ds (initial m))
      \<le> sum_list ds"
    using frames_budget [of startY floatOffset ds "initial m"] by (simp add: initial_def)
  ultimately have "real ?n * targetDelta \<le> sum_list ds" by linarith
  then have "real ?n \<le> sum_list ds / targetDelta"
    by (simp add: targetDelta_def field_simps)
  then show ?thesis by (simp add: le_floor_iff)
qed

lemma useFrame_meshRef_bounded:
  assumes "meshRef s = Some p" "\<bar>vec3_y p - startY\<bar> \<le> 0.1"
  shows "\<exists>q. meshRef (useFrame startY floatOffset delta s) = Some q
           \<and> \<bar>vec3_y q - startY\<bar> \<le> 0.1"
proof (cases "due (accumulate delta s)")
  case True
  have "\<bar>sin ((timeRef s + targetDelta) * 4.0 + floatOffset)\<bar> \<le> 1"
    by (rule abs_sin_le_one)
  then show ?thesis
    using True assms by (simp add: useFrame_due_meshRef setY_def abs_mult)
next
  case False
  then show ?thesis
    using assms by (simp add: useFrame_not_due accumulate_def)
qed

lemma frames_meshRef_bounded:
  "meshRef s = Some p \<Longrightarrow> \<bar>vec3_y p - startY\<bar> \<le> 0.1 \<Longrightarrow>
     \<exists>q. meshRef (frames startY floatOffset ds s) = Some q \<and> \<bar>vec3_y q - startY\<bar> \<le> 0.1"
proof (induction ds arbitrary: s p)
  case Nil
  then show ?case by simp
next
  case (Cons delta ds)
  from useFrame_meshRef_bounded [OF Cons.prems, of floatOffset delta]
  obtain q where "meshRef (useFrame startY floatOffset delta s) = Some q"
    and "\<bar>vec3_y q - startY\<bar> \<le> 0.1" by blast
  then show ?case using Cons.IH by simp
qed

section \<open>Facts about the grid\<close>

lemma layerProphecies_positions:
  "map position (layerProphecies l) = placements (prophecyCount l) (itemsPerRow l)"
  by (simp add: layerProphecies_def placements_def comp_def)

lemma length_placements: "length (placements count columns) = count"
  by (simp add: placements_def)

lemma row_eq_div: "row columns index = int (index div columns)"
  by (simp add: row_def floor_divide_of_nat_eq)

lemma rows_full: "0 < columns \<Longrightarrow> rows (columns * r) columns = int r"
  by (simp add: rows_def)

lemma index_of_row_col:
  "int index = row columns index * int columns + int (col columns index)"
  by (simp add: row_eq_div col_def flip: of_nat_mult of_nat_add)

lemma row_col_inj:
  assumes "row columns i = row columns j" and "col columns i = col columns j"
  shows "i = j"
proof -
  have "int i = int j"
    using assms index_of_row_col [of i columns] index_of_row_col [of j columns] by simp
  then show ?thesis by simp
qed

lemma placement_inj:
  assumes "0 < columns" and "placement count columns i = placement count columns j"
  shows "i = j"
proof -
  from assms(2) have "real (col columns i) = real (col columns j)"
    and "real_of_int (row columns i) = real_of_int (row columns j)"
    by (simp_all add: placement_def spacingX_def spacingY_def)
  then have "col columns i = col columns j" and "row columns i = row columns j"
    by simp_all
  then show ?thesis by (rule row_col_inj [rotated])
qed

lemma sum_mod_full:
  fixes f :: "nat \<Rightarrow> real"
  shows "(\<Sum>i = 0 ..< c * r. f (i mod c)) = real r * (\<Sum>j = 0 ..< c. f j)"
proof (induction r)
  case 0
  show ?case by simp
next
  case (Suc r)
  have "(\<Sum>i = 0 ..< c * Suc r. f (i mod c)) = (\<Sum>i = 0 ..< c + c * r. f (i mod c))"
    by simp
  also have "\<dots> = (\<Sum>i = 0 ..< c * r. f (i mod c)) + (\<Sum>i = 0 + c * r ..< c + c * r. f (i mod c))"
    by (simp add: sum.atLeastLessThan_concat)
  also have "(\<Sum>i = 0 + c * r ..< c + c * r. f (i mod c)) = (\<Sum>j = 0 ..< c. f ((j + c * r) mod c))"
    by (rule sum.shift_bounds_nat_ivl)
  also have "\<dots> = (\<Sum>j = 0 ..< c. f j)"
    by (rule sum.cong) simp_all
  also have "(\<Sum>i = 0 ..< c * r. f (i mod c)) = real r * (\<Sum>j = 0 ..< c. f j)"
    by (rule Suc.IH)
  also have "real r * (\<Sum>j = 0 ..< c. f j) + (\<Sum>j = 0 ..< c. f j) = real (Suc r) * (\<Sum>j = 0 ..< c. f j)"
    by (simp add: algebra_simps)
  finally show ?case .
qed

lemma sum_div_full:
  fixes g :: "nat \<Rightarrow> real"
  shows "(\<Sum>i = 0 ..< c * r. g (i div c)) = real c * (\<Sum>k = 0 ..< r. g k)"
proof (induction r)
  case 0
  show ?case by simp
next
  case (Suc r)
  have "(\<Sum>i = 0 ..< c * Suc r. g (i div c)) = (\<Sum>i = 0 ..< c + c * r. g (i div c))"
    by simp
  also have "\<dots> = (\<Sum>i = 0 ..< c * r. g (i div c)) + (\<Sum>i = 0 + c * r ..< c + c * r. g (i div c))"
    by (simp add: sum.atLeastLessThan_concat)
  also have "(\<Sum>i = 0 + c * r ..< c + c * r. g (i div c)) = (\<Sum>j = 0 ..< c. g ((j + c * r) div c))"
    by (rule sum.shift_bounds_nat_ivl)
  also have "\<dots> = (\<Sum>j = 0 ..< c. g r)"
    by (rule sum.cong) simp_all
  also have "(\<Sum>i = 0 ..< c * r. g (i div c)) = real c * (\<Sum>k = 0 ..< r. g k)"
    by (rule Suc.IH)
  also have "real c * (\<Sum>k = 0 ..< r. g k) + (\<Sum>j = 0 ..< c. g r) = real c * (\<Sum>k = 0 ..< Suc r. g k)"
    by (simp add: algebra_simps)
  finally show ?case .
qed

lemma sum_centred: "(\<Sum>j = 0 ..< n. (real j - (real n - 1) / 2)) = 0"
proof -
  have g: "(\<Sum>j = 0 ..< m. real j) = real m * (real m - 1) / 2" for m
    by (induction m) (simp_all add: field_simps)
  show ?thesis
    by (simp add: sum_subtractf g)
qed

lemma sum_list_placements_x:
  "sum_list (map vec3_x (placements count columns))
     = (\<Sum>i = 0 ..< count. (real (i mod columns) - (real columns - 1) / 2) * spacingX)"
  by (simp add: placements_def placement_def col_def comp_def interv_sum_list_conv_sum_set_nat)

lemma sum_list_placements_y:
  "sum_list (map vec3_y (placements count columns))
     = (\<Sum>i = 0 ..< count.
          ((real_of_int (rows count columns) - 1) / 2 - real (i div columns)) * spacingY)"
  by (simp add: placements_def placement_def row_eq_div comp_def interv_sum_list_conv_sum_set_nat)

lemma mean_x_full:
  "mean (map vec3_x (placements (columns * r) columns)) = 0"
proof -
  have "(\<Sum>i = 0 ..< columns * r. (real (i mod columns) - (real columns - 1) / 2) * spacingX)
      = (\<Sum>i = 0 ..< columns * r. real (i mod columns) - (real columns - 1) / 2) * spacingX"
    by (simp add: sum_distrib_right)
  also have "(\<Sum>i = 0 ..< columns * r. real (i mod columns) - (real columns - 1) / 2)
      = real r * (\<Sum>j = 0 ..< columns. real j - (real columns - 1) / 2)"
    by (rule sum_mod_full [of "\<lambda>j. real j - (real columns - 1) / 2"])
  finally show ?thesis
    by (simp add: mean_def sum_list_placements_x sum_centred)
qed

lemma mean_y_full:
  assumes "0 < columns"
  shows "mean (map vec3_y (placements (columns * r) columns)) = 0"
proof -
  have "(\<Sum>i = 0 ..< columns * r. ((real r - 1) / 2 - real (i div columns)) * spacingY)
      = (\<Sum>i = 0 ..< columns * r. (real r - 1) / 2 - real (i div columns)) * spacingY"
    by (simp add: sum_distrib_right)
  also have "(\<Sum>i = 0 ..< columns * r. (real r - 1) / 2 - real (i div columns))
      = real columns * (\<Sum>k = 0 ..< r. (real r - 1) / 2 - real k)"
    by (rule sum_div_full [of "\<lambda>k. (real r - 1) / 2 - real k"])
  also have "(\<Sum>k = 0 ..< r. (real r - 1) / 2 - real k) = - (\<Sum>k = 0 ..< r. real k - (real r - 1) / 2)"
    by (simp add: sum_negf [symmetric])
  finally show ?thesis
    using assms by (simp add: mean_def sum_list_placements_y sum_centred rows_full)
qed

lemma sum_mod_partial:
  fixes f :: "nat \<Rightarrow> real"
  assumes "k < c"
  shows "(\<Sum>i = 0 ..< c * r + k. f (i mod c))
           = real r * (\<Sum>j = 0 ..< c. f j) + (\<Sum>j = 0 ..< k. f j)"
proof -
  have "(\<Sum>i = 0 ..< c * r + k. f (i mod c)) = (\<Sum>i = 0 ..< k + c * r. f (i mod c))"
    by (simp add: add.commute)
  also have "\<dots> = (\<Sum>i = 0 ..< c * r. f (i mod c)) + (\<Sum>i = 0 + c * r ..< k + c * r. f (i mod c))"
    by (simp add: sum.atLeastLessThan_concat)
  also have "(\<Sum>i = 0 + c * r ..< k + c * r. f (i mod c)) = (\<Sum>j = 0 ..< k. f ((j + c * r) mod c))"
    by (rule sum.shift_bounds_nat_ivl)
  also have "\<dots> = (\<Sum>j = 0 ..< k. f j)"
    using assms by (intro sum.cong) simp_all
  also have "(\<Sum>i = 0 ..< c * r. f (i mod c)) = real r * (\<Sum>j = 0 ..< c. f j)"
    by (rule sum_mod_full)
  finally show ?thesis .
qed

lemma sum_x_partial:
  assumes "0 < columns"
  shows "sum_list (map vec3_x (placements count columns))
           = real (count mod columns) * (real (count mod columns) - real columns) / 2 * spacingX"
proof -
  let ?k = "count mod columns"
  let ?f = "\<lambda>j. real j - (real columns - 1) / 2"
  have g: "(\<Sum>j = 0 ..< m. real j) = real m * (real m - 1) / 2" for m
    by (induction m) (simp_all add: field_simps)
  have k: "?k < columns" using assms by simp
  have "count = columns * (count div columns) + ?k" by simp
  then have "(\<Sum>i = 0 ..< count. ?f (i mod columns))
      = (\<Sum>i = 0 ..< columns * (count div columns) + ?k. ?f (i mod columns))"
    by simp
  also have "\<dots> = real (count div columns) * (\<Sum>j = 0 ..< columns. ?f j) + (\<Sum>j = 0 ..< ?k. ?f j)"
    by (rule sum_mod_partial [OF k])
  also have "(\<Sum>j = 0 ..< columns. ?f j) = 0"
    by (rule sum_centred)
  also have "(\<Sum>j = 0 ..< ?k. ?f j) = (\<Sum>j = 0 ..< ?k. real j) - real ?k * ((real columns - 1) / 2)"
    by (simp add: sum_subtractf)
  also have "\<dots> = real ?k * (real ?k - real columns) / 2"
    by (simp add: g field_simps)
  finally have "(\<Sum>i = 0 ..< count. ?f (i mod columns)) = real ?k * (real ?k - real columns) / 2"
    by simp
  then show ?thesis
    by (simp add: sum_list_placements_x flip: sum_distrib_right)
qed

lemma mean_x_zero_iff:
  assumes "0 < count" "0 < columns"
  shows "mean (map vec3_x (placements count columns)) = 0 \<longleftrightarrow> columns dvd count"
proof -
  have "count mod columns < columns" using assms by simp
  then have "real (count mod columns) - real columns \<noteq> 0" by simp
  moreover have "length (placements count columns) = count"
    by (simp add: placements_def)
  ultimately show ?thesis
    using assms
    by (simp add: mean_def sum_x_partial [OF assms(2)] spacingX_def dvd_eq_mod_eq_0)
qed

section \<open>The claims\<close>

subsection \<open>C1: fixed-step determinism\<close>

text \<open>
  C1 as stated: for deltas that are not negative and sum to \<open>10 * targetDelta\<close>,
  exactly 10 ticks are applied, \<open>timeRef\<close> ends at \<open>10 * targetDelta\<close>, and the
  final state does not depend on how the total was split. The callback tests the
  accumulator once per call and then resets it to zero, so a single call with
  \<open>10 * targetDelta\<close> applies one tick: \<open>timeRef\<close> ends at \<open>targetDelta\<close>, and the
  state differs from the one ten calls of \<open>targetDelta\<close> give.
\<close>

theorem C1_counterexample:
  "sum_list [10 * targetDelta] = 10 * targetDelta
   \<and> 0 \<le> 10 * targetDelta
   \<and> ticks 0 0 [10 * targetDelta] (initial None) = 1
   \<and> timeRef (frames 0 0 [10 * targetDelta] (initial None)) = targetDelta
   \<and> timeRef (frames 0 0 (replicate 10 targetDelta) (initial None)) = 10 * targetDelta
   \<and> frames 0 0 [10 * targetDelta] (initial None)
       \<noteq> frames 0 0 (replicate 10 targetDelta) (initial None)"
proof -
  let ?s = "initial None"
  have d: "due (accumulate (10 * targetDelta) ?s)"
    by (simp add: due_def accumulate_def initial_def targetDelta_def)
  have t1: "ticks 0 0 [10 * targetDelta] ?s = 1"
    using d by simp
  have e1: "timeRef (frames 0 0 [10 * targetDelta] ?s) = targetDelta"
    using d by (simp add: useFrame_due_timeRef initial_def)
  have e10: "timeRef (frames 0 0 (replicate 10 targetDelta) ?s) = 10 * targetDelta"
    by (simp add: frames_timeRef ticks_replicate initial_def)
  have "timeRef (frames 0 0 [10 * targetDelta] ?s)
      \<noteq> timeRef (frames 0 0 (replicate 10 targetDelta) ?s)"
    unfolding e1 e10 by (simp add: targetDelta_def)
  then have "frames 0 0 [10 * targetDelta] ?s \<noteq> frames 0 0 (replicate 10 targetDelta) ?s"
    by metis
  then show ?thesis
    using t1 e1 e10 by (simp add: targetDelta_def)
qed

text \<open>
  C1, amended: for deltas that are not negative and sum to \<open>10 * targetDelta\<close>, at most
  10 ticks are applied and \<open>timeRef\<close> ends at the number of applied ticks times
  \<open>targetDelta\<close>; ten calls of \<open>targetDelta\<close> each apply exactly 10 ticks and end at
  \<open>10 * targetDelta\<close>.
\<close>

theorem C1_fixed_step_amended:
  "((\<forall>d \<in> set ds. 0 \<le> d) \<and> sum_list ds = 10 * targetDelta \<longrightarrow>
      ticks startY floatOffset ds (initial m) \<le> 10
      \<and> timeRef (frames startY floatOffset ds (initial m))
          = real (ticks startY floatOffset ds (initial m)) * targetDelta)
   \<and> ticks startY floatOffset (replicate 10 targetDelta) (initial m) = 10
   \<and> timeRef (frames startY floatOffset (replicate 10 targetDelta) (initial m)) = 10 * targetDelta"
proof (intro conjI impI)
  assume a: "(\<forall>d \<in> set ds. 0 \<le> d) \<and> sum_list ds = 10 * targetDelta"
  then have "int (ticks startY floatOffset ds (initial m)) \<le> \<lfloor>sum_list ds / targetDelta\<rfloor>"
    by (intro ticks_le_floor) simp
  also have "sum_list ds / targetDelta = 10"
    using a by (simp add: targetDelta_def)
  finally show "ticks startY floatOffset ds (initial m) \<le> 10" by simp
next
  show "timeRef (frames startY floatOffset ds (initial m))
          = real (ticks startY floatOffset ds (initial m)) * targetDelta"
    by (simp add: frames_timeRef initial_def)
next
  show "ticks startY floatOffset (replicate 10 targetDelta) (initial m) = 10"
    by (simp add: ticks_replicate initial_def)
next
  show "timeRef (frames startY floatOffset (replicate 10 targetDelta) (initial m)) = 10 * targetDelta"
    by (simp add: frames_timeRef ticks_replicate initial_def)
qed

theorem C1_fixed_step_amended_witness:
  "sum_list [4 * targetDelta, 6 * targetDelta] = 10 * targetDelta
   \<and> ticks 0 0 [4 * targetDelta, 6 * targetDelta] (initial None) \<le> 10
   \<and> timeRef (frames 0 0 [4 * targetDelta, 6 * targetDelta] (initial None))
       = real (ticks 0 0 [4 * targetDelta, 6 * targetDelta] (initial None)) * targetDelta"
  using C1_fixed_step_amended [of "[4 * targetDelta, 6 * targetDelta]" 0 0 None]
  by (simp add: targetDelta_def)

subsection \<open>C2: what happens to the accumulator on a tick\<close>

text \<open>
  C2 as stated: on a tick the accumulator is reduced by exactly \<open>targetDelta\<close>, so the
  number of ticks over a total time \<open>T\<close> is \<open>\<lfloor>T / targetDelta\<rfloor>\<close> within one. Line 88
  assigns zero instead: after one call with delta 0.1 from the initial state the
  accumulator is 0, not \<open>0.1 - targetDelta = 1 / 15\<close>, and one tick was applied where
  \<open>\<lfloor>0.1 / targetDelta\<rfloor> = 3\<close>.
\<close>

theorem C2_counterexample:
  "due (accumulate 0.1 (initial None))
   \<and> accumRef (accumulate 0.1 (initial None)) - targetDelta = 1 / 15
   \<and> accumRef (useFrame 0 0 0.1 (initial None)) = 0
   \<and> ticks 0 0 [0.1] (initial None) = 1
   \<and> \<lfloor>sum_list [0.1] / targetDelta\<rfloor> = 3"
proof -
  have d: "due (accumulate 0.1 (initial None))"
    by (simp add: due_def accumulate_def initial_def targetDelta_def)
  show ?thesis
    using d by (simp add: useFrame_due_accumRef) (simp add: accumulate_def initial_def targetDelta_def)
qed

text \<open>
  C2, amended: whenever the accumulator, with the frame's delta added, is at least
  \<open>targetDelta\<close>, one tick is applied and the accumulator is reset to zero (the time
  beyond \<open>targetDelta\<close> is dropped); consequently the number of ticks applied over
  deltas that are not negative and sum to \<open>T\<close> is at most \<open>\<lfloor>T / targetDelta\<rfloor>\<close>.
\<close>

theorem C2_reset_amended:
  "(due (accumulate delta s) \<longrightarrow>
      ticks startY floatOffset [delta] s = 1
      \<and> accumRef (useFrame startY floatOffset delta s) = 0)
   \<and> ((\<forall>d \<in> set ds. 0 \<le> d) \<longrightarrow>
        int (ticks startY floatOffset ds (initial m)) \<le> \<lfloor>sum_list ds / targetDelta\<rfloor>)"
  by (simp add: useFrame_due_accumRef ticks_le_floor)

theorem C2_reset_amended_witness:
  "due (accumulate 0.1 (initial None))
   \<and> ticks 0 0 [0.1] (initial None) = 1
   \<and> accumRef (useFrame 0 0 0.1 (initial None)) = 0
   \<and> int (ticks 0 0 [0.05, 0.05] (initial None)) \<le> \<lfloor>sum_list [0.05, 0.05] / targetDelta\<rfloor>"
  using C2_reset_amended [of "0.1" "initial None" 0 0 "[0.05, 0.05]" None]
  by (simp add: due_def accumulate_def initial_def targetDelta_def)

subsection \<open>C3: centering of the grid\<close>

text \<open>
  C3 as stated: for every count and column number above zero, the mean of the
  \<open>x\<close> placements and the mean of the \<open>y\<close> placements are 0. The last row of a layer
  is filled from the left, so a layer whose last row is not full is off centre: for
  100 panels in 9 columns (the third and fourth layer) the means are \<open>- 1 / 10\<close> and
  \<open>11 / 10\<close>.
\<close>

theorem C3_counterexample:
  "0 < (100::nat) \<and> 0 < (9::nat)
   \<and> mean (map vec3_x (placements 100 9)) = - (1 / 10)
   \<and> mean (map vec3_y (placements 100 9)) = 11 / 10"
proof -
  have split: "(\<Sum>i = 0 ..< 100. h i) = (\<Sum>i = 0 ..< 9 * 11. h i) + h 99" for h :: "nat \<Rightarrow> real"
    using sum.atLeast0_lessThan_Suc [of h 99] by simp
  have "(\<Sum>i = 0 ..< 9 * 11. real (i mod 9) - 4) = real 11 * (\<Sum>j = 0 ..< 9. real j - 4)"
    by (rule sum_mod_full [of "\<lambda>j. real j - 4"])
  also have "(\<Sum>j = 0 ..< 9. real j - 4) = 0"
    using sum_centred [of 9] by simp
  finally have x99: "(\<Sum>i = 0 ..< 9 * 11. real (i mod 9) - 4) = 0"
    by simp
  have "sum_list (map vec3_x (placements 100 9)) = (\<Sum>i = 0 ..< 100. real (i mod 9) - 4) * spacingX"
    by (simp add: sum_list_placements_x sum_distrib_right)
  also have "(\<Sum>i = 0 ..< 100. real (i mod 9) - 4) = - 4"
    unfolding split x99 by simp
  finally have x: "sum_list (map vec3_x (placements 100 9)) = - 10"
    by (simp add: spacingX_def)
  have "(\<Sum>i = 0 ..< 9 * 11. 11 / 2 - real (i div 9)) = real 9 * (\<Sum>k = 0 ..< 11. 11 / 2 - real k)"
    by (rule sum_div_full [of "\<lambda>k. 11 / 2 - real k"])
  also have "(\<Sum>k = 0 ..< 11. 11 / 2 - real k) = - (\<Sum>k = 0 ..< 11. real k - (real 11 - 1) / 2) + 11 / 2"
    by (simp add: sum_subtractf)
  also have "(\<Sum>k = 0 ..< 11. real k - (real 11 - 1) / 2) = 0"
    by (rule sum_centred)
  finally have y99: "(\<Sum>i = 0 ..< 9 * 11. 11 / 2 - real (i div 9)) = 99 / 2"
    by simp
  have "sum_list (map vec3_y (placements 100 9)) = (\<Sum>i = 0 ..< 100. 11 / 2 - real (i div 9)) * spacingY"
    by (simp add: sum_list_placements_y sum_distrib_right rows_def)
  also have "(\<Sum>i = 0 ..< 100. 11 / 2 - real (i div 9)) = 44"
    unfolding split y99 by simp
  finally have y: "sum_list (map vec3_y (placements 100 9)) = 110"
    by (simp add: spacingY_def)
  have len: "length (placements 100 9) = 100"
    by (simp add: placements_def)
  show ?thesis
    by (simp add: mean_def x y len)
qed

text \<open>
  C3, amended: for every count and column number above zero, the mean of the \<open>x\<close>
  placements is 0 exactly when the column number divides the count (every row is
  full), and then the mean of the \<open>y\<close> placements is 0 as well.
\<close>

theorem C3_centred_amended:
  "0 < count \<and> 0 < columns \<longrightarrow>
     (mean (map vec3_x (placements count columns)) = 0 \<longleftrightarrow> columns dvd count)
     \<and> (columns dvd count \<longrightarrow> mean (map vec3_y (placements count columns)) = 0)"
  by (auto simp: mean_x_zero_iff mean_y_full elim!: dvdE)

theorem C3_centred_amended_witness:
  "mean (map vec3_x (placements 99 9)) = 0 \<and> mean (map vec3_y (placements 99 9)) = 0"
  using C3_centred_amended [of 99 9] by simp

subsection \<open>C4: the cutout rule of the fragment shader\<close>

text \<open>
  C4: a fragment whose sampled panel alpha is at least 0.5 is discarded; otherwise the
  colour written is the background's \<open>rgb\<close> plus \<open>(0, 0.1, 0.6)\<close> plus \<open>0.1 * tint\<close> on
  every channel, with the background's alpha, the background being sampled at the
  surface coordinate plus the scroll offset.
\<close>

theorem C4_cutout_shading:
  "fragmentShader uProphecy uOcean scrollOffset tint vUv =
     (let panelColor = uProphecy vUv;
          backgroundColor = uOcean (Vec2 (vec2_x vUv + vec2_x scrollOffset)
                                         (vec2_y vUv + vec2_y scrollOffset))
      in if vec4_a panelColor \<ge> 0.5 then None
         else Some (Vec4 (vec4_r backgroundColor + 0 + 0.1 * tint)
                         (vec4_g backgroundColor + 0.1 + 0.1 * tint)
                         (vec4_b backgroundColor + 0.6 + 0.1 * tint)
                         (vec4_a backgroundColor)))"
  by (simp add: fragmentShader_def Let_def add2_def add3_def rgb_def splat3_def vec4_of_def
        not_le [symmetric])

text \<open>
  The rule on a panel image with the alphas 0.9, 0.3, 0.5 and 0.49: the first and the
  third texel are discarded, the second and the fourth show the tinted background.
\<close>

theorem C4_cutout_shading_witness:
  "fragmentShader (\<lambda>uv. Vec4 1 1 1 (if uv = Vec2 0 0 then 0.9 else if uv = Vec2 1 0 then 0.3
                                   else if uv = Vec2 0 1 then 0.5 else 0.49))
       (\<lambda>uv. Vec4 0.2 0.3 0.1 0.8) (Vec2 0.5 (- 0.5)) (- 5) (Vec2 0 0) = None
   \<and> fragmentShader (\<lambda>uv. Vec4 1 1 1 (if uv = Vec2 0 0 then 0.9 else if uv = Vec2 1 0 then 0.3
                                   else if uv = Vec2 0 1 then 0.5 else 0.49))
       (\<lambda>uv. Vec4 0.2 0.3 0.1 0.8) (Vec2 0.5 (- 0.5)) (- 5) (Vec2 0 1) = None
   \<and> fragmentShader (\<lambda>uv. Vec4 1 1 1 (if uv = Vec2 0 0 then 0.9 else if uv = Vec2 1 0 then 0.3
                                   else if uv = Vec2 0 1 then 0.5 else 0.49))
       (\<lambda>uv. Vec4 0.2 0.3 0.1 0.8) (Vec2 0.5 (- 0.5)) (- 5) (Vec2 1 0)
       = Some (Vec4 (- 0.3) (- 0.1) 0.2 0.8)
   \<and> fragmentShader (\<lambda>uv. Vec4 1 1 1 (if uv = Vec2 0 0 then 0.9 else if uv = Vec2 1 0 then 0.3
                                   else if uv = Vec2 0 1 then 0.5 else 0.49))
       (\<lambda>uv. Vec4 0.2 0.3 0.1 0.8) (Vec2 0.5 (- 0.5)) (- 5) (Vec2 1 1)
       = Some (Vec4 (- 0.3) (- 0.1) 0.2 0.8)"
  by (simp add: C4_cutout_shading)

subsection \<open>C5: the scroll offset\<close>

text \<open>
  C5: starting from the offset \<open>(0, 0)\<close>, after any sequence of frames the offset is
  \<open>(0.1 * N * targetDelta, - 0.1 * N * targetDelta)\<close>, \<open>N\<close> the number of ticks applied:
  nothing but a tick changes it.
\<close>

theorem C5_scroll_offset:
  "uOffset (frames startY floatOffset ds (initial m)) =
     Vec2 (0.1 * real (ticks startY floatOffset ds (initial m)) * targetDelta)
          (- (0.1 * real (ticks startY floatOffset ds (initial m)) * targetDelta))"
  by (simp add: frames_uOffset initial_def)

subsection \<open>C6: the bob is bounded\<close>

text \<open>
  C6: after any sequence of frames the height of a mounted panel is within 0.1 of its
  initial height, whatever the phase; and a tick assigns the height
  \<open>startY + sin (timeRef * 4 + floatOffset) * 0.1\<close> whatever the height was before, so
  that directly after a tick it is within 0.1 of \<open>startY\<close> from any state.
\<close>

theorem C6_bounded_bob:
  "(\<exists>q. meshRef (frames (vec3_y p) floatOffset ds (initial (Some p))) = Some q
        \<and> vec3_y p - 0.1 \<le> vec3_y q \<and> vec3_y q \<le> vec3_y p + 0.1)
   \<and> (due (accumulate delta s) \<longrightarrow>
        positionY (useFrame startY floatOffset delta s)
          = map_option
              (\<lambda>_. startY + sin (timeRef (useFrame startY floatOffset delta s) * 4.0 + floatOffset) * 0.1)
              (meshRef s)
        \<and> (\<forall>y. positionY (useFrame startY floatOffset delta s) = Some y \<longrightarrow>
              startY - 0.1 \<le> y \<and> y \<le> startY + 0.1))"
proof (intro conjI impI)
  have "\<exists>q. meshRef (frames (vec3_y p) floatOffset ds (initial (Some p))) = Some q
          \<and> \<bar>vec3_y q - vec3_y p\<bar> \<le> 0.1"
    by (rule frames_meshRef_bounded [of _ p]) (simp_all add: initial_def)
  then obtain q where q: "meshRef (frames (vec3_y p) floatOffset ds (initial (Some p))) = Some q"
    and b: "\<bar>vec3_y q - vec3_y p\<bar> \<le> 0.1"
    by blast
  from b have "vec3_y p - 0.1 \<le> vec3_y q \<and> vec3_y q \<le> vec3_y p + 0.1"
    by linarith
  with q show "\<exists>q. meshRef (frames (vec3_y p) floatOffset ds (initial (Some p))) = Some q
        \<and> vec3_y p - 0.1 \<le> vec3_y q \<and> vec3_y q \<le> vec3_y p + 0.1"
    by blast
next
  assume d: "due (accumulate delta s)"
  show eq: "positionY (useFrame startY floatOffset delta s)
          = map_option
              (\<lambda>_. startY + sin (timeRef (useFrame startY floatOffset delta s) * 4.0 + floatOffset) * 0.1)
              (meshRef s)"
    using d
    by (simp add: positionY_def useFrame_due_meshRef useFrame_due_timeRef setY_def
          option.map_comp comp_def)
  have b: "\<bar>sin (timeRef (useFrame startY floatOffset delta s) * 4.0 + floatOffset)\<bar> \<le> 1"
    by (rule abs_sin_le_one)
  show "\<forall>y. positionY (useFrame startY floatOffset delta s) = Some y \<longrightarrow>
              startY - 0.1 \<le> y \<and> y \<le> startY + 0.1"
    unfolding eq using b by (cases "meshRef s") (auto simp: abs_le_iff)
qed

theorem C6_bounded_bob_witness:
  "due (accumulate targetDelta (initial (Some (Vec3 0 5 0))))
   \<and> positionY (useFrame 5 0 targetDelta (initial (Some (Vec3 0 5 0))))
       = Some (5 + sin (2 / 15) * 0.1)
   \<and> 5 - 0.1 \<le> 5 + sin (2 / 15 :: real) * 0.1 \<and> 5 + sin (2 / 15 :: real) * 0.1 \<le> 5 + 0.1"
  using C6_bounded_bob [of "Vec3 0 5 0" 0 "[]" targetDelta "initial (Some (Vec3 0 5 0))" 5]
  by (simp add: due_def accumulate_def initial_def targetDelta_def useFrame_def tick_def
        positionY_def setY_def)

subsection \<open>C7: the grid of 100 panels in 9 columns\<close>

text \<open>
  C7: for 100 panels in 9 columns there are 12 rows, no two of the indices 0..99 share
  their (row, column) pair, and no two share their placement.
\<close>

theorem C7_grid_injective:
  "rows 100 9 = 12
   \<and> inj_on (\<lambda>index. (row 9 index, col 9 index)) {0 ..< 100}
   \<and> inj_on (placement 100 9) {0 ..< 100}"
proof (intro conjI)
  show "rows 100 9 = 12" by (simp add: rows_def)
  show "inj_on (\<lambda>index. (row 9 index, col 9 index)) {0 ..< 100}"
    by (rule inj_onI) (auto intro: row_col_inj)
  show "inj_on (placement 100 9) {0 ..< 100}"
    by (rule inj_onI) (rule placement_inj [of 9 100], simp_all)
qed

theorem C7_grid_injective_witness:
  "(row 9 98, col 9 98) \<noteq> (row 9 99, col 9 99) \<and> placement 100 9 0 \<noteq> placement 100 9 99"
proof -
  have a: "inj_on (\<lambda>index. (row 9 index, col 9 index)) {0 ..< 100}"
    and b: "inj_on (placement 100 9) {0 ..< 100}"
    using C7_grid_injective by simp_all
  have "(row 9 98, col 9 98) \<noteq> (row 9 99, col 9 99)"
    using inj_on_contraD [OF a, of 98 99] by simp
  moreover have "placement 100 9 0 \<noteq> placement 100 9 99"
    using inj_on_contraD [OF b, of 0 99] by simp
  ultimately show ?thesis by simp
qed

subsection \<open>C8: the aspect ratio and its fallback\<close>

text \<open>
  C8: without an image the aspect ratio is 1 and the panel is built all the same; with
  an image (of a height above zero, where the quotient is a number) it is width over
  height; the geometry is \<open>(aspectRatio * size, size)\<close> in both cases.
\<close>

theorem C8_aspect_ratio:
  "aspectRatio None = 1
   \<and> planeGeometry (Prophecy props None) = (1 * baseSize props, baseSize props)
   \<and> (0 < height i \<longrightarrow>
        aspectRatio (Some i) = real (width i) / real (height i)
        \<and> real (height i) * aspectRatio (Some i) = real (width i))
   \<and> planeGeometry (Prophecy props img) = (aspectRatio img * baseSize props, baseSize props)
   \<and> mesh_position (Prophecy props img) = position props"
  by (simp add: aspectRatio_def Prophecy_def baseSize_def Let_def)

theorem C8_aspect_ratio_witness:
  "aspectRatio (Some \<lparr>width = 300, height = 200\<rparr>) = 3 / 2
   \<and> planeGeometry (Prophecy \<lparr>imageIndex = 1, position = Vec3 0 0 0, size_opt = Some 1.2,
         grayHint_opt = None\<rparr> (Some \<lparr>width = 300, height = 200\<rparr>)) = (1.8, 1.2)
   \<and> planeGeometry (Prophecy \<lparr>imageIndex = 1, position = Vec3 0 0 0, size_opt = Some 1.2,
         grayHint_opt = None\<rparr> None) = (1.2, 1.2)"
  using C8_aspect_ratio [of "\<lparr>imageIndex = 1, position = Vec3 0 0 0, size_opt = Some 1.2,
         grayHint_opt = None\<rparr>" "\<lparr>width = 300, height = 200\<rparr>" "Some \<lparr>width = 300, height = 200\<rparr>"]
    C8_aspect_ratio [of "\<lparr>imageIndex = 1, position = Vec3 0 0 0, size_opt = Some 1.2,
         grayHint_opt = None\<rparr>" "\<lparr>width = 300, height = 200\<rparr>" None]
  by (simp add: baseSize_def)

subsection \<open>C9: a frame below the threshold\<close>

text \<open>
  C9: when the accumulator with the frame's delta added stays below \<open>targetDelta\<close>, no
  tick is applied and the call changes nothing but the accumulator: the scroll offset,
  \<open>timeRef\<close> and the position of the mesh are as before.
\<close>

theorem C9_below_threshold:
  "accumRef s + delta < targetDelta \<Longrightarrow>
     useFrame startY floatOffset delta s = s\<lparr>accumRef := accumRef s + delta\<rparr>
     \<and> ticks startY floatOffset [delta] s = 0
     \<and> uOffset (useFrame startY floatOffset delta s) = uOffset s
     \<and> timeRef (useFrame startY floatOffset delta s) = timeRef s
     \<and> meshRef (useFrame startY floatOffset delta s) = meshRef s"
  by (simp add: useFrame_below due_def accumulate_def)

theorem C9_below_threshold_witness:
  "accumRef (initial (Some (Vec3 0 5 0))) + 1 / 60 < targetDelta
   \<and> useFrame 5 0 (1 / 60) (initial (Some (Vec3 0 5 0)))
       = \<lparr>timeRef = 0, accumRef = 1 / 60, uOffset = Vec2 0 0, meshRef = Some (Vec3 0 5 0)\<rparr>
   \<and> ticks 5 0 [1 / 60] (initial (Some (Vec3 0 5 0))) = 0"
  using C9_below_threshold [of "initial (Some (Vec3 0 5 0))" "1 / 60" 5 0]
  by (simp add: initial_def targetDelta_def)

subsection \<open>C10: at most one tick per frame\<close>

text \<open>
  C10: one call applies at most one tick, however large its delta (\<open>timeRef\<close> stays or
  advances by one \<open>targetDelta\<close>), and a call that applies a tick leaves the
  accumulator at exactly zero.
\<close>

theorem C10_at_most_one_tick:
  "ticks startY floatOffset [delta] s \<le> 1
   \<and> (timeRef (useFrame startY floatOffset delta s) = timeRef s
        \<or> timeRef (useFrame startY floatOffset delta s) = timeRef s + targetDelta)
   \<and> (due (accumulate delta s) \<longrightarrow>
         ticks startY floatOffset [delta] s = 1
         \<and> timeRef (useFrame startY floatOffset delta s) = timeRef s + targetDelta
         \<and> accumRef (useFrame startY floatOffset delta s) = 0)"
  by (cases "due (accumulate delta s)")
     (simp_all add: useFrame_due_timeRef useFrame_due_accumRef useFrame_not_due accumulate_def)

theorem C10_at_most_one_tick_witness:
  "due (accumulate 1 (initial None))
   \<and> ticks 0 0 [1] (initial None) = 1
   \<and> timeRef (useFrame 0 0 1 (initial None)) = 1 / 30
   \<and> accumRef (useFrame 0 0 1 (initial None)) = 0"
  using C10_at_most_one_tick [of 0 0 1 "initial None"]
  by (simp add: initial_def targetDelta_def due_def accumulate_def)

end
